theory Spec2Isabelle
  imports Main "HOL-Library.Sublist"
begin

section \<open>JavaScript strings\<close>

text \<open>
  A JavaScript string is a sequence of UTF-16 code units. The model keeps one \<^typ>\<open>char\<close>
  per code unit and so covers the strings whose code units lie below 256; \<open>length\<close> is the
  \<^verbatim>\<open>.length\<close> of the source. Character classes follow ECMAScript on that range.
\<close>

abbreviation NL :: char where "NL \<equiv> CHR 0x0A"
abbreviation CR :: char where "CR \<equiv> CHR 0x0D"
abbreviation TAB :: char where "TAB \<equiv> CHR 0x09"
abbreviation DQUOTE :: char where "DQUOTE \<equiv> CHR 0x22"
abbreviation SQUOTE :: char where "SQUOTE \<equiv> CHR 0x27"
abbreviation BACKSLASH :: char where "BACKSLASH \<equiv> CHR 0x5C"
abbreviation BACKTICK :: char where "BACKTICK \<equiv> CHR 0x60"
abbreviation NUL :: char where "NUL \<equiv> CHR 0x00"

text \<open>\<^verbatim>\<open>\s\<close> and \<^verbatim>\<open>trim()\<close>: white space and line terminators (tab, LF, VT, FF, CR, space, NBSP).\<close>

definition isWhiteSpace :: "char \<Rightarrow> bool" where
  "isWhiteSpace c = (c = TAB \<or> c = NL \<or> c = CHR 0x0B \<or> c = CHR 0x0C \<or> c = CR \<or> c = CHR 0x20 \<or> c = CHR 0xA0)"

text \<open>Line terminators, for \<^verbatim>\<open>^\<close>, \<^verbatim>\<open>$\<close> and \<^verbatim>\<open>.\<close> of a regular expression.\<close>

definition isLineTerminator :: "char \<Rightarrow> bool" where
  "isLineTerminator c = (c = NL \<or> c = CR)"

text \<open>\<^verbatim>\<open>[\w_]\<close>: letters, digits and the underscore of ASCII.\<close>

definition isWordChar :: "char \<Rightarrow> bool" where
  "isWordChar c = (let n = (of_char c :: nat) in
     (48 \<le> n \<and> n \<le> 57) \<or> (65 \<le> n \<and> n \<le> 90) \<or> n = 95 \<or> (97 \<le> n \<and> n \<le> 122))"

text \<open>\<^verbatim>\<open>[0-9a-f-]\<close>: the characters of a marker token.\<close>

definition isTokenChar :: "char \<Rightarrow> bool" where
  "isTokenChar c = (let n = (of_char c :: nat) in
     (48 \<le> n \<and> n \<le> 57) \<or> (97 \<le> n \<and> n \<le> 102) \<or> n = 45)"

text \<open>
  A regular expression with flag \<^verbatim>\<open>i\<close> (and no flag \<^verbatim>\<open>u\<close>) compares canonical forms: the
  upper-case form of a code unit, unless that leaves the code unit's own range. Against the
  ASCII patterns of the source this is ASCII case folding.
\<close>

definition isAsciiLetter :: "char \<Rightarrow> bool" where
  "isAsciiLetter c = (c \<in> set ''ABCDEFGHIJKLMNOPQRSTUVWXYZabcdefghijklmnopqrstuvwxyz'')"

text \<open>The other case of an ASCII letter: the bit of value 32 flipped.\<close>

fun flipCase :: "char \<Rightarrow> char" where
  "flipCase (Char b0 b1 b2 b3 b4 b5 b6 b7) = Char b0 b1 b2 b3 b4 (\<not> b5) b6 b7"

text \<open>Whether the character \<open>c\<close> of the text matches the ASCII character \<open>p\<close> of a pattern.\<close>

definition ciEq :: "char \<Rightarrow> char \<Rightarrow> bool" where
  "ciEq c p = (if c = p then True else if c = flipCase p then isAsciiLetter p else False)"

definition upperChars :: string where
  "upperChars = ''ABCDEFGHIJKLMNOPQRSTUVWXYZ'' @
     [CHR 0xC0, CHR 0xC1, CHR 0xC2, CHR 0xC3, CHR 0xC4, CHR 0xC5, CHR 0xC6, CHR 0xC7,
      CHR 0xC8, CHR 0xC9, CHR 0xCA, CHR 0xCB, CHR 0xCC, CHR 0xCD, CHR 0xCE, CHR 0xCF,
      CHR 0xD0, CHR 0xD1, CHR 0xD2, CHR 0xD3, CHR 0xD4, CHR 0xD5, CHR 0xD6,
      CHR 0xD8, CHR 0xD9, CHR 0xDA, CHR 0xDB, CHR 0xDC, CHR 0xDD, CHR 0xDE]"

definition lowerChars :: string where
  "lowerChars = ''abcdefghijklmnopqrstuvwxyz'' @
     [CHR 0xE0, CHR 0xE1, CHR 0xE2, CHR 0xE3, CHR 0xE4, CHR 0xE5, CHR 0xE6, CHR 0xE7,
      CHR 0xE8, CHR 0xE9, CHR 0xEA, CHR 0xEB, CHR 0xEC, CHR 0xED, CHR 0xEE, CHR 0xEF,
      CHR 0xF0, CHR 0xF1, CHR 0xF2, CHR 0xF3, CHR 0xF4, CHR 0xF5, CHR 0xF6,
      CHR 0xF8, CHR 0xF9, CHR 0xFA, CHR 0xFB, CHR 0xFC, CHR 0xFD, CHR 0xFE]"

definition toLowerCase :: "string \<Rightarrow> string" where
  "toLowerCase s =
     map (\<lambda>c. case map_of (zip upperChars lowerChars) c of Some d \<Rightarrow> d | None \<Rightarrow> c) s"

text \<open>
  \<^verbatim>\<open>toUpperCase()\<close>: the sharp s becomes \<^verbatim>\<open>SS\<close>. The upper-case forms of the micro sign and of
  y with diaeresis lie above 255; both are kept as they are, which changes no comparison of
  the source, each being against an ASCII string.
\<close>

definition toUpperCase :: "string \<Rightarrow> string" where
  "toUpperCase s =
     concat (map (\<lambda>c. if c = CHR 0xDF then ''SS''
                       else case map_of (zip lowerChars upperChars) c of Some d \<Rightarrow> [d] | None \<Rightarrow> [c]) s)"

definition trim :: "string \<Rightarrow> string" where
  "trim s = rev (dropWhile isWhiteSpace (rev (dropWhile isWhiteSpace s)))"

text \<open>Whether \<open>s\<close> starts with the characters of \<open>p\<close>, compared by \<open>eq\<close>.\<close>

fun prefixBy :: "(char \<Rightarrow> char \<Rightarrow> bool) \<Rightarrow> string \<Rightarrow> string \<Rightarrow> bool" where
  "prefixBy eq [] s = True"
| "prefixBy eq (p # ps) [] = False"
| "prefixBy eq (p # ps) (c # cs) = (if eq c p then prefixBy eq ps cs else False)"

definition startsWith :: "string \<Rightarrow> string \<Rightarrow> bool" where
  "startsWith s p = prefixBy (=) p s"

fun includes_str :: "string \<Rightarrow> string \<Rightarrow> bool" where
  "includes_str [] p = (p = [])"
| "includes_str (c # cs) p = (if prefixBy (=) p (c # cs) then True else includes_str cs p)"

text \<open>\<^verbatim>\<open>indexOf\<close>: the first position of \<open>p\<close>, or \<open>-1\<close>.\<close>

fun indexOf :: "string \<Rightarrow> string \<Rightarrow> int" where
  "indexOf [] p = (if p = [] then 0 else - 1)"
| "indexOf (c # cs) p =
     (if prefixBy (=) p (c # cs) then 0
      else (let r = indexOf cs p in if r < 0 then - 1 else r + 1))"

text \<open>\<^verbatim>\<open>substring(a, b)\<close>: both ends clamped to the string, and swapped when \<open>a > b\<close>.\<close>

definition substring :: "string \<Rightarrow> int \<Rightarrow> int \<Rightarrow> string" where
  "substring s a b =
     (let n = int (length s);
          a' = min (max a 0) n;
          b' = min (max b 0) n;
          lo = min a' b';
          hi = max a' b'
      in take (nat (hi - lo)) (drop (nat lo) s))"

text \<open>
  The replacement string of \<^verbatim>\<open>String.prototype.replace\<close>: \<^verbatim>\<open>$$\<close> is a dollar sign, \<^verbatim>\<open>$&\<close> the
  match, \<^verbatim>\<open>$`\<close> the text before it and \<^verbatim>\<open>$'\<close> the text after it. No pattern replaced in the
  source has a capture group, so \<^verbatim>\<open>$1\<close> and \<^verbatim>\<open>$<\<close> stand for themselves.
\<close>

fun getSubstitution :: "string \<Rightarrow> string \<Rightarrow> string \<Rightarrow> string \<Rightarrow> string" where
  "getSubstitution m pre post [] = []"
| "getSubstitution m pre post [c] = [c]"
| "getSubstitution m pre post (c # d # r) =
     (if c = CHR ''$'' \<and> d = CHR ''$'' then CHR ''$'' # getSubstitution m pre post r
      else if c = CHR ''$'' \<and> d = CHR ''&'' then m @ getSubstitution m pre post r
      else if c = CHR ''$'' \<and> d = BACKTICK then pre @ getSubstitution m pre post r
      else if c = CHR ''$'' \<and> d = SQUOTE then post @ getSubstitution m pre post r
      else c # getSubstitution m pre post (d # r))"

text \<open>
  \<^verbatim>\<open>s.replace(/pat/g, repl)\<close> for a pattern of literal characters, compared by \<open>eq\<close>: left to
  right, every match replaced, the search resuming after the match. \<open>rpre\<close> is the text
  already passed, reversed. Every pattern of the source is non-empty.
\<close>

function replaceFrom ::
  "(char \<Rightarrow> char \<Rightarrow> bool) \<Rightarrow> string \<Rightarrow> string \<Rightarrow> string \<Rightarrow> string \<Rightarrow> string" where
  "replaceFrom eq pat repl rpre [] = []"
| "replaceFrom eq pat repl rpre (c # cs) =
     (if prefixBy eq pat (c # cs) \<and> pat \<noteq> []
      then getSubstitution (take (length pat) (c # cs)) (rev rpre) (drop (length pat) (c # cs)) repl
           @ replaceFrom eq pat repl (rev (take (length pat) (c # cs)) @ rpre) (drop (length pat) (c # cs))
      else c # replaceFrom eq pat repl (c # rpre) cs)"
  by pat_completeness auto
termination
  by (relation "measure (\<lambda>(eq, pat, repl, rpre, s). length s)") auto

definition replaceAll :: "string \<Rightarrow> string \<Rightarrow> string \<Rightarrow> string" where
  "replaceAll pat repl s = replaceFrom (=) pat repl [] s"

definition replaceAllCI :: "string \<Rightarrow> string \<Rightarrow> string \<Rightarrow> string" where
  "replaceAllCI pat repl s = replaceFrom ciEq pat repl [] s"

section \<open>Settings and file names\<close>

record ListyImporterSettings =
  outputFolder :: string
  consolidateToDoLists :: bool
  includeTags :: bool
  tagReplacement :: string
  enableNoteLocking :: bool
  templateFile :: string
  maxTitleLength :: int

text \<open>The chain of \<^verbatim>\<open>replace\<close> calls at the head of \<^verbatim>\<open>sanitizeFileName\<close>.\<close>

definition replaceForbidden :: "string \<Rightarrow> string" where
  "replaceForbidden fileName =
     replaceAll ''#'' []
       (replaceAll [NUL] []
       (replaceAll ''='' ''-''
       (replaceAll ''|'' ''-''
       (replaceAll ''>'' ''-''
       (replaceAll ''<'' ''-''
       (replaceAll [DQUOTE] [SQUOTE]
       (replaceAll ''?'' ''-''
       (replaceAll ''*'' ''-''
       (replaceAll '':'' ''-''
       (replaceAll [BACKSLASH] ''-''
       (replaceAll ''/'' ''-'' fileName)))))))))))"

definition sanitizeFileName :: "ListyImporterSettings \<Rightarrow> string \<Rightarrow> string" where
  "sanitizeFileName st fileName =
     (let sanitized = trim (replaceForbidden fileName);
          sanitized = (if startsWith sanitized ''.'' then ''_'' @ sanitized else sanitized);
          maxLength = maxTitleLength st
      in if int (length sanitized) > maxLength
         then substring sanitized 0 (maxLength - 3) @ ''...''
         else sanitized)"

text \<open>The characters a file name must not hold.\<close>

definition forbiddenChars :: "char set" where
  "forbiddenChars = {CHR ''/'', BACKSLASH, CHR '':'', CHR ''*'', CHR ''?'', DQUOTE, CHR ''<'',
     CHR ''>'', CHR ''|'', CHR ''='', NUL, CHR ''#''}"

section \<open>The import's data\<close>

record ListyAttribute =
  key :: string
  valueOf :: string

record ListyItem =
  title :: string
  type :: string
  url :: "string option"
  dateAdded :: string
  marked :: bool
  attributes :: "ListyAttribute list option"

text \<open>\<open>items\<close> is \<open>None\<close> when the list of the JSON file has no \<^verbatim>\<open>items\<close> field.\<close>

record ListyList =
  icon :: string
  title :: string
  type :: string
  create :: string
  update :: string
  items :: "ListyItem list option"
  customOrderIndex :: int
  needFetchAfterImport :: bool

text \<open>
  The \<^verbatim>\<open>lists\<close> field of the parsed JSON file: absent, some value that is no array, or an array.
  An element of the array is a list, or \<^verbatim>\<open>null\<close>; the lists and their items are taken to have the
  fields of \<^verbatim>\<open>ListyTypes.ts\<close>.
\<close>

datatype listsField = ListsMissing | ListsNotArray | ListsArray "ListyList option list"

record ListyData =
  lists :: listsField

section \<open>The collaborators\<close>

text \<open>
  What the service calls and does not define: Obsidian's \<^verbatim>\<open>normalizePath\<close>, the template file
  as \<^verbatim>\<open>getFirstLinkpathDest\<close> and \<^verbatim>\<open>cachedRead\<close> deliver it (\<open>None\<close> when there is no such file or
  reading it fails), and \<^verbatim>\<open>uuidv4\<close>. Generating one document calls \<^verbatim>\<open>uuidv4\<close> at most once, so
  \<open>uuidv4 app k\<close> is the token the generator returns while the document after \<open>k\<close> written ones
  is generated.
\<close>

record App =
  normalizePath :: "string \<Rightarrow> string"
  cachedTemplate :: "string \<Rightarrow> string option"
  uuidv4 :: "nat \<Rightarrow> string"

text \<open>
  The vault: the files by path, the folders, and the calls of \<^verbatim>\<open>adapter.write\<close> in order. A read
  of a missing file fails and is caught by the service; writing and creating a folder succeed.
\<close>

record Vault =
  files :: "string \<rightharpoonup> string"
  folders :: "string set"
  written :: "(string \<times> string) list"

definition adapterExists :: "Vault \<Rightarrow> string \<Rightarrow> bool" where
  "adapterExists w path = (files w path \<noteq> None \<or> path \<in> folders w)"

definition createFolder :: "Vault \<Rightarrow> string \<Rightarrow> Vault" where
  "createFolder w path = w\<lparr>folders := insert path (folders w)\<rparr>"

definition adapterWrite :: "Vault \<Rightarrow> string \<Rightarrow> string \<Rightarrow> Vault" where
  "adapterWrite w path content = w\<lparr>files := (files w)(path \<mapsto> content), written := written w @ [(path, content)]\<rparr>"

section \<open>A JavaScript Map with string keys\<close>

text \<open>Entries in insertion order; \<^verbatim>\<open>set\<close> on a key that is present keeps its place.\<close>

fun mapSet :: "string \<Rightarrow> 'v \<Rightarrow> (string \<times> 'v) list \<Rightarrow> (string \<times> 'v) list" where
  "mapSet k v [] = [(k, v)]"
| "mapSet k v (p # ps) = (if fst p = k then (k, v) # ps else p # mapSet k v ps)"

definition mapHas :: "string \<Rightarrow> (string \<times> 'v) list \<Rightarrow> bool" where
  "mapHas k m = (map_of m k \<noteq> None)"

definition mapGet :: "string \<Rightarrow> (string \<times> 'v) list \<Rightarrow> 'v option" where
  "mapGet k m = map_of m k"

definition mapDelete :: "string \<Rightarrow> (string \<times> 'v) list \<Rightarrow> (string \<times> 'v) list" where
  "mapDelete k m = filter (\<lambda>p. fst p \<noteq> k) m"

section \<open>Markers\<close>

definition USER_COMMENT_PLACEHOLDER :: string where
  "USER_COMMENT_PLACEHOLDER =
     ''%% Here you can type whatever you want, it will not be overwritten by the plugin. %%''"

definition startBlockMarker :: "string \<Rightarrow> string" where
  "startBlockMarker itemId = ''%%START-'' @ itemId @ ''%%''"

definition endBlockMarker :: "string \<Rightarrow> string" where
  "endBlockMarker itemId = ''%%END-'' @ itemId @ ''%%''"

definition startContentMarker :: "string \<Rightarrow> string" where
  "startContentMarker itemId = ''%%START-EXTRACTED-CONTENT-'' @ itemId @ ''%%''"

definition endContentMarker :: "string \<Rightarrow> string" where
  "endContentMarker itemId = ''%%END-EXTRACTED-CONTENT-'' @ itemId @ ''%%''"

text \<open>
  \<^verbatim>\<open>/%%START-([0-9a-f-]+)%%/\<close> tried at the head of \<open>s\<close>. The class is matched greedily; a shorter
  run of it is followed by a character of the class, never by \<^verbatim>\<open>%\<close>, so backtracking finds
  nothing more.
\<close>

definition matchStartMarker :: "string \<Rightarrow> string option" where
  "matchStartMarker s =
     (if prefixBy (=) ''%%START-'' s
      then (let r = drop 8 s; t = takeWhile isTokenChar r
            in if t \<noteq> [] \<and> prefixBy (=) ''%%'' (dropWhile isTokenChar r) then Some t else None)
      else None)"

text \<open>\<^verbatim>\<open>extractItemId\<close>: the token of the leftmost match, \<open>None\<close> for \<^verbatim>\<open>null\<close>.\<close>

fun extractItemId :: "string \<Rightarrow> string option" where
  "extractItemId [] = None"
| "extractItemId (c # cs) =
     (case matchStartMarker (c # cs) of Some t \<Rightarrow> Some t | None \<Rightarrow> extractItemId cs)"

text \<open>
  \<^verbatim>\<open>/^lock:\s*true/m\<close>: \<open>atLineStart\<close> says whether the position is the start of the text or follows
  a line terminator.
\<close>

definition lockMatchAt :: "string \<Rightarrow> bool" where
  "lockMatchAt s =
     (if prefixBy (=) ''lock:'' s then prefixBy (=) ''true'' (dropWhile isWhiteSpace (drop 5 s))
      else False)"

fun lockScan :: "bool \<Rightarrow> string \<Rightarrow> bool" where
  "lockScan atLineStart [] = False"
| "lockScan atLineStart (c # cs) =
     (if atLineStart then (if lockMatchAt (c # cs) then True else lockScan (isLineTerminator c) cs)
      else lockScan (isLineTerminator c) cs)"

definition lockMatch :: "string \<Rightarrow> bool" where
  "lockMatch content = lockScan True content"

section \<open>The header\<close>

definition escapeYamlString :: "string \<Rightarrow> string" where
  "escapeYamlString str =
     replaceAll [TAB] [BACKSLASH, CHR ''t'']
       (replaceAll [CR] [BACKSLASH, CHR ''r'']
       (replaceAll [NL] [BACKSLASH, CHR ''n'']
       (replaceAll [DQUOTE] [BACKSLASH, DQUOTE]
       (replaceAll [BACKSLASH] [BACKSLASH, BACKSLASH] str))))"

text \<open>The settings are merged over the defaults when loaded, so \<^verbatim>\<open>tagReplacement\<close> is never undefined.\<close>

definition processDescription :: "ListyImporterSettings \<Rightarrow> string \<Rightarrow> string" where
  "processDescription st description = replaceAll ''#'' (tagReplacement st) description"

text \<open>\<^verbatim>\<open>split(',')\<close>.\<close>

fun splitComma :: "string \<Rightarrow> string list" where
  "splitComma [] = [[]]"
| "splitComma (c # cs) =
     (if c = CHR '','' then [] # splitComma cs
      else (case splitComma cs of [] \<Rightarrow> [[c]] | p # ps \<Rightarrow> (c # p) # ps))"

text \<open>\<^verbatim>\<open>replace(/\s+/g, '-')\<close>.\<close>

function collapseWhiteSpace :: "string \<Rightarrow> string" where
  "collapseWhiteSpace [] = []"
| "collapseWhiteSpace (c # cs) =
     (if isWhiteSpace c then CHR ''-'' # collapseWhiteSpace (dropWhile isWhiteSpace cs)
      else c # collapseWhiteSpace cs)"
  by pat_completeness auto
termination
  by (relation "measure length") (auto simp: less_Suc_eq_le length_dropWhile_le)

definition quoted :: "string \<Rightarrow> string" where
  "quoted s = [DQUOTE] @ escapeYamlString s @ [DQUOTE]"

definition blockLiteral :: "string \<Rightarrow> string" where
  "blockLiteral s = ''|'' @ [NL] @ ''  '' @ replaceAll [NL] (NL # ''  '') s @ [NL]"

definition attributesMapOf :: "ListyAttribute list \<Rightarrow> (string \<times> string) list" where
  "attributesMapOf attrs = foldl (\<lambda>m attr. mapSet (toLowerCase (key attr)) (valueOf attr) m) [] attrs"

definition getOrEmpty :: "string \<Rightarrow> (string \<times> string) list \<Rightarrow> string" where
  "getOrEmpty k m = (case mapGet k m of Some v \<Rightarrow> v | None \<Rightarrow> [])"

definition tagLines :: "string \<Rightarrow> string" where
  "tagLines tagsString =
     (let tags = filter (\<lambda>tag. length tag > 0)
                   (map (\<lambda>tag. collapseWhiteSpace tag) (map trim (splitComma tagsString)))
      in if length tags > 0
         then ''tags:'' @ [NL] @ concat (map (\<lambda>tag. ''  - '' @ quoted tag @ [NL]) tags)
         else [])"

text \<open>The lines of \<^verbatim>\<open>generateFrontmatter\<close> for a non-empty attribute array.\<close>

definition attributeLines :: "ListyImporterSettings \<Rightarrow> ListyAttribute list \<Rightarrow> string" where
  "attributeLines st attrs =
     (let m = attributesMapOf attrs;
          fm = [];
          fm = (if mapHas ''description'' m
                then fm @ ''description: '' @ blockLiteral (processDescription st (getOrEmpty ''description'' m))
                else fm);
          m = (if mapHas ''description'' m then mapDelete ''description'' m else m);
          fm = (if mapHas ''author'' m then fm @ ''author: '' @ quoted (getOrEmpty ''author'' m) @ [NL] else fm);
          m = (if mapHas ''author'' m then mapDelete ''author'' m else m);
          fm = (if mapHas ''cover'' m then fm @ ''cover: '' @ quoted (getOrEmpty ''cover'' m) @ [NL] else fm);
          m = (if mapHas ''cover'' m then mapDelete ''cover'' m else m);
          fm = (if mapHas ''tags'' m
                then fm @ (if includeTags st then tagLines (getOrEmpty ''tags'' m) else [])
                        @ ''original_tags: '' @ quoted (getOrEmpty ''tags'' m) @ [NL]
                else fm);
          m = (if mapHas ''tags'' m then mapDelete ''tags'' m else m);
          fm = (if mapHas ''icon'' m then fm @ ''icon: '' @ quoted (getOrEmpty ''icon'' m) @ [NL] else fm);
          m = (if mapHas ''icon'' m then mapDelete ''icon'' m else m)
      in fm @ concat (map (\<lambda>(k, v).
                 if NL \<in> set v \<or> length v > 80
                 then k @ '': '' @ blockLiteral v
                 else k @ '': '' @ quoted v @ [NL]) m))"

definition generateFrontmatter :: "ListyImporterSettings \<Rightarrow> ListyItem \<Rightarrow> ListyList \<Rightarrow> string" where
  "generateFrontmatter st item list =
     (let fm = ''---'' @ [NL];
          fm = fm @ ''source: listy'' @ [NL];
          fm = fm @ ''list: '' @ quoted (ListyList.title list) @ [NL];
          fm = fm @ ''dateAdded: '' @ dateAdded item @ [NL];
          fm = (case url item of
                  Some u \<Rightarrow> if u \<noteq> [] then fm @ ''url: '' @ quoted u @ [NL] else fm
                | None \<Rightarrow> fm);
          fm = fm @ ''type: '' @ toLowerCase (ListyItem.type item) @ [NL];
          fm = (case attributes item of
                  Some attrs \<Rightarrow> if length attrs > 0 then fm @ attributeLines st attrs else fm
                | None \<Rightarrow> fm);
          fm = fm @ ''marked: '' @ (if marked item then ''true'' else ''false'') @ [NL];
          fm = (if enableNoteLocking st then fm @ ''lock: false'' @ [NL] else fm)
      in fm @ ''---'' @ [NL, NL])"

section \<open>The body\<close>

definition DEFAULT_TEMPLATE :: string where
  "DEFAULT_TEMPLATE =
     ''# {{Title}}'' @ [NL, NL] @
     ''[Visit Original Source]({{URL}})'' @ [NL, NL] @
     ''## Description'' @ [NL, NL] @
     ''{{Description}}'' @ [NL, NL] @
     ''![Cover Image]({{Cover}})'' @ [NL, NL] @
     ''## Notes'' @ [NL, NL] @
     ''{{UserNote}}''"

definition getTemplateContents :: "App \<Rightarrow> string \<Rightarrow> string" where
  "getTemplateContents app templatePath =
     (if templatePath = [] \<or> trim templatePath = [] then DEFAULT_TEMPLATE
      else (case cachedTemplate app (normalizePath app templatePath) of
              Some t \<Rightarrow> t
            | None \<Rightarrow> DEFAULT_TEMPLATE))"

text \<open>
  \<^verbatim>\<open>/{{ATTR:([\w_]+)}}/gi\<close> tried at the head of \<open>s\<close>: the key it captures. The braces that end
  the match are no word characters, so the greedy class is final here too.
\<close>

definition attrMatchAt :: "string \<Rightarrow> string option" where
  "attrMatchAt s =
     (if prefixBy ciEq ''{{ATTR:'' s
      then (let r = drop 7 s; k = takeWhile isWordChar r
            in if k \<noteq> [] \<and> prefixBy (=) ''}}'' (dropWhile isWordChar r) then Some k else None)
      else None)"

text \<open>The leftmost match in \<open>s\<close>, which starts at position \<open>i\<close> of the text: the key and the end of the match.\<close>

fun attrSearch :: "nat \<Rightarrow> string \<Rightarrow> (string \<times> nat) option" where
  "attrSearch i [] = None"
| "attrSearch i (c # cs) =
     (case attrMatchAt (c # cs) of
        Some k \<Rightarrow> Some (k, i + 9 + length k)
      | None \<Rightarrow> attrSearch (Suc i) cs)"

text \<open>
  \<^verbatim>\<open>attrRegex.exec(result)\<close> for the global expression: the search starts at \<^verbatim>\<open>lastIndex\<close> and the
  new \<^verbatim>\<open>lastIndex\<close> is the end of the match.
\<close>

definition attrExec :: "nat \<Rightarrow> string \<Rightarrow> (string \<times> nat) option" where
  "attrExec lastIndex s = (if lastIndex > length s then None else attrSearch lastIndex (drop lastIndex s))"

definition findAttr :: "ListyAttribute list \<Rightarrow> string \<Rightarrow> ListyAttribute option" where
  "findAttr attrs name = find (\<lambda>a. toUpperCase (key a) = name) attrs"

definition valueOrEmpty :: "ListyAttribute option \<Rightarrow> string" where
  "valueOrEmpty a = (case a of Some attr \<Rightarrow> valueOf attr | None \<Rightarrow> [])"

text \<open>
  The \<^verbatim>\<open>while\<close> loop over the generic placeholders. The text is replaced inside the loop while
  \<^verbatim>\<open>lastIndex\<close> keeps the end of the match in the text before the replacement. The loop need
  not end (a value may bring its own placeholder back), so no result is \<open>None\<close>.
\<close>

partial_function (option) attrLoop :: "ListyAttribute list \<Rightarrow> nat \<Rightarrow> string \<Rightarrow> string option" where
  "attrLoop attrs lastIndex result =
     (case attrExec lastIndex result of
        None \<Rightarrow> Some result
      | Some m \<Rightarrow>
          attrLoop attrs (snd m)
            (replaceAllCI (''{{ATTR:'' @ fst m @ ''}}'')
               (valueOrEmpty (findAttr attrs (toUpperCase (fst m)))) result))"

declare attrLoop.simps [code]

text \<open>\<^verbatim>\<open>replace(/{{ATTR:[\w_]+}}/gi, "")\<close>.\<close>

function removeAttrPlaceholders :: "string \<Rightarrow> string" where
  "removeAttrPlaceholders [] = []"
| "removeAttrPlaceholders (c # cs) =
     (case attrMatchAt (c # cs) of
        Some k \<Rightarrow> removeAttrPlaceholders (drop (8 + length k) cs)
      | None \<Rightarrow> c # removeAttrPlaceholders cs)"
  by pat_completeness auto
termination
  by (relation "measure length") auto

definition applyTemplateTransformations :: "string \<Rightarrow> ListyItem \<Rightarrow> ListyList \<Rightarrow> string option" where
  "applyTemplateTransformations rawTemplate item list =
     (let result =
            replaceAllCI ''{{Update}}'' (update list)
              (replaceAllCI ''{{Create}}'' (create list)
              (replaceAllCI ''{{ListType}}'' (ListyList.type list)
              (replaceAllCI ''{{ListTitle}}'' (ListyList.title list)
              (replaceAllCI ''{{DateAdded}}'' (dateAdded item)
              (replaceAllCI ''{{Type}}'' (ListyItem.type item)
              (replaceAllCI ''{{URL}}'' (case url item of Some u \<Rightarrow> u | None \<Rightarrow> [])
              (replaceAllCI ''{{Title}}'' (ListyItem.title item) rawTemplate)))))))
      in case attributes item of
           Some (a # as) \<Rightarrow>
             (let attrs = a # as;
                  result = replaceAllCI ''{{Description}}'' (valueOrEmpty (findAttr attrs ''DESCRIPTION'')) result;
                  result = replaceAllCI ''{{Cover}}'' (valueOrEmpty (findAttr attrs ''COVER'')) result;
                  result = replaceAllCI ''{{UserNote}}'' (valueOrEmpty (findAttr attrs ''USER_NOTE'')) result;
                  result = replaceAllCI ''{{Author}}'' (valueOrEmpty (findAttr attrs ''AUTHOR'')) result;
                  result = replaceAllCI ''{{Genre}}'' (valueOrEmpty (findAttr attrs ''GENRE'')) result;
                  result = replaceAllCI ''{{Rating}}'' (valueOrEmpty (findAttr attrs ''RATING'')) result;
                  result = replaceAllCI ''{{Date}}'' (valueOrEmpty (findAttr attrs ''DATE'')) result;
                  result = replaceAllCI ''{{Price}}'' (valueOrEmpty (findAttr attrs ''PRICE'')) result
              in map_option trim (attrLoop attrs 0 result))
         | _ \<Rightarrow>
             Some (trim (removeAttrPlaceholders
               (replaceAllCI ''{{Price}}'' []
               (replaceAllCI ''{{Date}}'' []
               (replaceAllCI ''{{Rating}}'' []
               (replaceAllCI ''{{Genre}}'' []
               (replaceAllCI ''{{Author}}'' []
               (replaceAllCI ''{{UserNote}}'' []
               (replaceAllCI ''{{Cover}}'' []
               (replaceAllCI ''{{Description}}'' [] result)))))))))))"

text \<open>
  What a run can throw: the error of the shape check, the \<^verbatim>\<open>TypeError\<close> of reading a field of
  \<^verbatim>\<open>null\<close>, and the \<^verbatim>\<open>RangeError\<close> with which the engine ends a computation whose text
  outgrows its strings.
\<close>

datatype error = InvalidFormat | TypeError | RangeError

text \<open>
  The loop of \<^verbatim>\<open>generateItemContent\<close> over the attributes: it assigns to the value of every
  attribute keyed \<^verbatim>\<open>description\<close>.
\<close>

definition rewriteDescriptions :: "ListyImporterSettings \<Rightarrow> ListyAttribute list \<Rightarrow> ListyAttribute list" where
  "rewriteDescriptions st attrs =
     map (\<lambda>attr. if toLowerCase (key attr) = ''description''
                 then attr\<lparr>valueOf := processDescription st (valueOf attr)\<rparr>
                 else attr) attrs"

text \<open>
  \<^verbatim>\<open>generateItemContent\<close>: the body it returns or the error it throws, and the item as the call
  leaves it. The copy \<^verbatim>\<open>{ ...item }\<close> is shallow: the title is set in the copy only, while the
  attribute objects are those of the item, so the rewritten descriptions stay in the item the
  caller holds. When the loop of \<^verbatim>\<open>applyTemplateTransformations\<close> does not end, the text grows
  beyond every length (each round moves \<^verbatim>\<open>lastIndex\<close> on by ten or more, and a match lies
  within the text), so the engine ends the call with \<^verbatim>\<open>RangeError: Invalid string length\<close>.
\<close>

definition generateItemContent ::
  "App \<Rightarrow> ListyImporterSettings \<Rightarrow> ListyItem \<Rightarrow> ListyList \<Rightarrow> (error + string) \<times> ListyItem" where
  "generateItemContent app st item list =
     (let templateContent = getTemplateContents app (templateFile st);
          maxLength = maxTitleLength st;
          t = substring (sanitizeFileName st (ListyItem.title item)) 0 maxLength;
          t = (if int (length t) = maxLength then substring t 0 (maxLength - 3) @ ''...'' else t);
          attrs = map_option (rewriteDescriptions st) (attributes item)
      in (case applyTemplateTransformations templateContent
                 (item\<lparr>ListyItem.title := t, attributes := attrs\<rparr>) list of
            Some content \<Rightarrow> Inr content
          | None \<Rightarrow> Inl RangeError,
          item\<lparr>attributes := attrs\<rparr>))"

section \<open>The merge\<close>

text \<open>
  The three functions of the merge return the text of the note, or the error thrown, and the
  item as they leave it.

  \<^verbatim>\<open>generateNoteContent(item, list, null)\<close>: the lines after the test of the prior document, with
  \<open>itemId\<close> the token \<^verbatim>\<open>uuidv4()\<close> returns. The header is rendered before the body.
\<close>

definition newNoteContent ::
  "App \<Rightarrow> ListyImporterSettings \<Rightarrow> string \<Rightarrow> ListyItem \<Rightarrow> ListyList \<Rightarrow> (error + string) \<times> ListyItem" where
  "newNoteContent app st itemId item list =
     (let frontmatter = generateFrontmatter st item list;
          r = generateItemContent app st item list
      in (case fst r of
            Inl e \<Rightarrow> Inl e
          | Inr noteContent \<Rightarrow>
              Inr (frontmatter
                @ ''%%START-'' @ itemId @ ''%%'' @ [NL, NL]
                @ USER_COMMENT_PLACEHOLDER @ [NL, NL]
                @ ''%%START-EXTRACTED-CONTENT-'' @ itemId @ ''%%'' @ [NL, NL]
                @ noteContent
                @ [NL, NL] @ ''%%END-EXTRACTED-CONTENT-'' @ itemId @ ''%%'' @ [NL, NL]
                @ USER_COMMENT_PLACEHOLDER @ [NL, NL]
                @ ''%%END-'' @ itemId @ ''%%'' @ [NL]),
          snd r))"

text \<open>
  \<^verbatim>\<open>updateExistingNote\<close>; \<open>freshId\<close> is the token \<^verbatim>\<open>uuidv4()\<close> returns should the note be
  regenerated. The second regeneration would render the item as the first rendering has left
  it; it is never reached, since \<^verbatim>\<open>includes\<close> has just found both content markers.
\<close>

definition updateExistingNote ::
  "App \<Rightarrow> ListyImporterSettings \<Rightarrow> string \<Rightarrow> ListyItem \<Rightarrow> ListyList \<Rightarrow> string \<Rightarrow> string
     \<Rightarrow> (error + string) \<times> ListyItem" where
  "updateExistingNote app st freshId item list existingContent itemId =
     (let startBlockMarker = startBlockMarker itemId;
          endBlockMarker = endBlockMarker itemId;
          startContentMarker = startContentMarker itemId;
          endContentMarker = endContentMarker itemId
      in if \<not> includes_str existingContent startBlockMarker \<or>
            \<not> includes_str existingContent endBlockMarker \<or>
            \<not> includes_str existingContent startContentMarker \<or>
            \<not> includes_str existingContent endContentMarker
         then newNoteContent app st freshId item list
         else (let frontmatter = generateFrontmatter st item list;
                   r = generateItemContent app st item list
               in case fst r of
                    Inl e \<Rightarrow> (Inl e, snd r)
                  | Inr newItemContent \<Rightarrow>
                      (let startContentIndex = indexOf existingContent startContentMarker;
                           endContentIndex = indexOf existingContent endContentMarker
                       in if startContentIndex = - 1 \<or> endContentIndex = - 1
                          then newNoteContent app st freshId (snd r) list
                          else (let blockStartIndex = indexOf existingContent startBlockMarker;
                                    blockEndIndex = indexOf existingContent endBlockMarker
                                                      + int (length endBlockMarker);
                                    beforeContent = substring existingContent
                                      (blockStartIndex + int (length startBlockMarker)) startContentIndex;
                                    afterContent = substring existingContent
                                      (endContentIndex + int (length endContentMarker))
                                      (blockEndIndex - int (length endBlockMarker))
                                in (Inr (frontmatter
                                      @ startBlockMarker @ beforeContent @ startContentMarker @ [NL, NL]
                                      @ newItemContent
                                      @ [NL, NL] @ endContentMarker @ afterContent @ endBlockMarker @ [NL]),
                                    snd r)))))"

text \<open>\<^verbatim>\<open>generateNoteContent\<close>; an empty prior document is as good as none.\<close>

definition generateNoteContent ::
  "App \<Rightarrow> ListyImporterSettings \<Rightarrow> string \<Rightarrow> ListyItem \<Rightarrow> ListyList \<Rightarrow> string option
     \<Rightarrow> (error + string) \<times> ListyItem" where
  "generateNoteContent app st freshId item list existingContent =
     (case existingContent of
        None \<Rightarrow> newNoteContent app st freshId item list
      | Some content \<Rightarrow>
          if content = [] then newNoteContent app st freshId item list
          else (case extractItemId content of
                  Some itemId \<Rightarrow> updateExistingNote app st freshId item list content itemId
                | None \<Rightarrow> newNoteContent app st freshId item list))"

section \<open>The consolidated task list\<close>

text \<open>
  \<^verbatim>\<open>/- \[([ x])\] (.*?)$/gm\<close> tried at the head of \<open>s\<close>: whether the box is checked, and the text
  after the box. The lazy group then runs to the next line terminator or to the end.
\<close>

fun taskMatchAt :: "string \<Rightarrow> (bool \<times> string) option" where
  "taskMatchAt (a # b # c # d # e # f # rest) =
     (if prefixBy (=) ''- ['' [a, b, c] \<and> (d = CHR '' '' \<or> d = CHR ''x'') \<and> prefixBy (=) ''] '' [e, f]
      then Some (d = CHR ''x'', rest) else None)"
| "taskMatchAt s = None"

text \<open>The matches of the \<^verbatim>\<open>exec\<close> loop in order: task name and whether it is checked.\<close>

function parseTasks :: "string \<Rightarrow> (string \<times> bool) list" where
  "parseTasks [] = []"
| "parseTasks (c # cs) =
     (case taskMatchAt (c # cs) of
        Some m \<Rightarrow>
          (takeWhile (\<lambda>x. \<not> isLineTerminator x) (snd m), fst m)
            # parseTasks (dropWhile (\<lambda>x. \<not> isLineTerminator x) (snd m))
      | None \<Rightarrow> parseTasks cs)"
  by pat_completeness auto
termination
proof (relation "measure length")
  fix c cs m
  assume "taskMatchAt (c # cs) = Some m"
  then have "length (snd m) < length (c # cs)"
    by (induction "c # cs" rule: taskMatchAt.induct) (auto split: if_splits)
  moreover have "length (dropWhile (\<lambda>x. \<not> isLineTerminator x) (snd m)) \<le> length (snd m)"
    by (rule length_dropWhile_le)
  ultimately show "(dropWhile (\<lambda>x. \<not> isLineTerminator x) (snd m), c # cs) \<in> measure length"
    by simp
qed auto

definition existingTasksOf :: "string \<Rightarrow> (string \<times> bool) list" where
  "existingTasksOf content = foldl (\<lambda>m t. mapSet (fst t) (snd t) m) [] (parseTasks content)"

definition isCompleted :: "(string \<times> bool) list \<Rightarrow> ListyItem \<Rightarrow> bool" where
  "isCompleted existingTasks item =
     (marked item \<or> (mapHas (ListyItem.title item) existingTasks
                     \<and> mapGet (ListyItem.title item) existingTasks = Some True))"

definition taskLine :: "(string \<times> bool) list \<Rightarrow> ListyItem \<Rightarrow> string" where
  "taskLine existingTasks item =
     ''- ['' @ (if isCompleted existingTasks item then ''x'' else '' '') @ ''] ''
       @ ListyItem.title item @ [NL]"

text \<open>A template literal prints \<^verbatim>\<open>null\<close> as the word.\<close>

definition idText :: "string option \<Rightarrow> string" where
  "idText listId = (case listId of Some i \<Rightarrow> i | None \<Rightarrow> ''null'')"

text \<open>
  The text \<^verbatim>\<open>createConsolidatedToDoList\<close> writes, from the prior document it has read: the
  header and the title line first.
\<close>

definition consolidatedHeader :: "ListyList \<Rightarrow> string" where
  "consolidatedHeader list =
     (let content = ''---'' @ [NL];
          content = content @ ''source: listy'' @ [NL];
          content = content @ ''type: todo'' @ [NL];
          content = content @ ''list: '' @ quoted (ListyList.title list) @ [NL];
          content = content @ ''create: '' @ create list @ [NL];
          content = content @ ''update: '' @ update list @ [NL];
          content = content @ ''---'' @ [NL, NL];
          content = content @ ''# '' @ ListyList.title list @ [NL, NL]
      in content)"

definition consolidatedContent ::
  "string \<Rightarrow> ListyList \<Rightarrow> string option \<Rightarrow> string" where
  "consolidatedContent freshId list existingContent =
     (let existingTasks = (case existingContent of Some c \<Rightarrow> existingTasksOf c | None \<Rightarrow> []);
          content = consolidatedHeader list;
          listId = (case existingContent of
                      Some c \<Rightarrow> if c \<noteq> [] then extractItemId c else Some freshId
                    | None \<Rightarrow> Some freshId);
          content = content @ ''%%START-'' @ idText listId @ ''%%'' @ [NL, NL];
          content = content @ USER_COMMENT_PLACEHOLDER @ [NL, NL];
          content = content @ ''%%START-EXTRACTED-CONTENT-'' @ idText listId @ ''%%'' @ [NL, NL];
          content = content @ concat (map (taskLine existingTasks)
                                        (case items list of Some is \<Rightarrow> is | None \<Rightarrow> []));
          content = content @ [NL] @ ''%%END-EXTRACTED-CONTENT-'' @ idText listId @ ''%%'' @ [NL, NL];
          content = content @ USER_COMMENT_PLACEHOLDER @ [NL, NL];
          content = content @ ''%%END-'' @ idText listId @ ''%%'' @ [NL]
      in content)"

definition isLocked :: "ListyImporterSettings \<Rightarrow> string option \<Rightarrow> bool" where
  "isLocked st existingContent =
     (case existingContent of
        Some c \<Rightarrow> enableNoteLocking st \<and> c \<noteq> [] \<and> lockMatch c
      | None \<Rightarrow> False)"

definition createConsolidatedToDoList ::
  "App \<Rightarrow> ListyImporterSettings \<Rightarrow> ListyList \<Rightarrow> string \<Rightarrow> Vault \<Rightarrow> Vault" where
  "createConsolidatedToDoList app st list folderPath w =
     (let listPath = normalizePath app (folderPath @ ''/'' @ sanitizeFileName st (ListyList.title list) @ ''.md'');
          existingContent = files w listPath
      in if isLocked st existingContent then w
         else adapterWrite w listPath
                (consolidatedContent (uuidv4 app (length (written w))) list existingContent))"

section \<open>The batch\<close>

text \<open>
  One round of the loop over the items of a list: the vault after it, and the count after it
  or the error that ends the run. The run does not read the item again.
\<close>

definition processItem ::
  "App \<Rightarrow> ListyImporterSettings \<Rightarrow> ListyList \<Rightarrow> string \<Rightarrow> ListyItem \<Rightarrow> Vault \<times> nat \<Rightarrow> Vault \<times> (error + nat)" where
  "processItem app st list listFolderPath item s =
     (let w = fst s;
          totalNotesCreated = snd s;
          sanitizedItemTitle = sanitizeFileName st (ListyItem.title item);
          notePath = normalizePath app (listFolderPath @ ''/'' @ sanitizedItemTitle @ ''.md'');
          existingContent = files w notePath
      in if isLocked st existingContent then (w, Inr totalNotesCreated)
         else (case fst (generateNoteContent app st (uuidv4 app (length (written w))) item list existingContent) of
                 Inl e \<Rightarrow> (w, Inl e)
               | Inr noteContent \<Rightarrow> (adapterWrite w notePath noteContent, Inr (totalNotesCreated + 1))))"

fun processItems ::
  "App \<Rightarrow> ListyImporterSettings \<Rightarrow> ListyList \<Rightarrow> string \<Rightarrow> ListyItem list \<Rightarrow> Vault \<times> nat \<Rightarrow> Vault \<times> (error + nat)" where
  "processItems app st list listFolderPath [] s = (fst s, Inr (snd s))"
| "processItems app st list listFolderPath (item # rest) s =
     (case processItem app st list listFolderPath item s of
        (w, Inl e) \<Rightarrow> (w, Inl e)
      | (w, Inr totalNotesCreated) \<Rightarrow> processItems app st list listFolderPath rest (w, totalNotesCreated))"

text \<open>One round of the loop over the lists, for an element that is a list.\<close>

definition processList ::
  "App \<Rightarrow> ListyImporterSettings \<Rightarrow> ListyList \<Rightarrow> Vault \<times> nat \<Rightarrow> Vault \<times> (error + nat)" where
  "processList app st list s =
     (let w = fst s; totalNotesCreated = snd s
      in case items list of
           None \<Rightarrow> (w, Inr totalNotesCreated)
         | Some is \<Rightarrow>
             if length is = 0 then (w, Inr totalNotesCreated)
             else if ListyList.type list = ''Tasks'' \<and> consolidateToDoLists st
             then (createConsolidatedToDoList app st list (outputFolder st) w, Inr (totalNotesCreated + 1))
             else (let sanitizedListTitle = sanitizeFileName st (ListyList.title list);
                       listFolderPath = normalizePath app (outputFolder st @ ''/'' @ sanitizedListTitle);
                       w = (if \<not> adapterExists w listFolderPath then createFolder w listFolderPath else w)
                   in processItems app st list listFolderPath is (w, totalNotesCreated)))"

text \<open>The loop over the lists; \<^verbatim>\<open>list.items\<close> of an element \<^verbatim>\<open>null\<close> throws.\<close>

fun processLists ::
  "App \<Rightarrow> ListyImporterSettings \<Rightarrow> ListyList option list \<Rightarrow> Vault \<times> nat \<Rightarrow> Vault \<times> (error + nat)" where
  "processLists app st [] s = (fst s, Inr (snd s))"
| "processLists app st (None # rest) s = (fst s, Inl TypeError)"
| "processLists app st (Some list # rest) s =
     (case processList app st list s of
        (w, Inl e) \<Rightarrow> (w, Inl e)
      | (w, Inr totalNotesCreated) \<Rightarrow> processLists app st rest (w, totalNotesCreated))"

text \<open>
  \<^verbatim>\<open>processListyData\<close>: the vault it leaves, with the error it throws or the count it returns.
\<close>

definition processListyData ::
  "App \<Rightarrow> ListyImporterSettings \<Rightarrow> ListyData \<Rightarrow> Vault \<Rightarrow> Vault \<times> (error + nat)" where
  "processListyData app st listyData w =
     (case lists listyData of
        ListsMissing \<Rightarrow> (w, Inl InvalidFormat)
      | ListsNotArray \<Rightarrow> (w, Inl InvalidFormat)
      | ListsArray ls \<Rightarrow>
          (let w = (if length (outputFolder st) > 0 \<and> \<not> adapterExists w (outputFolder st)
                    then createFolder w (outputFolder st) else w)
           in processLists app st ls (w, 0)))"

text \<open>The name before truncation: trimmed, and guarded against a leading dot.\<close>

definition guarded :: "string \<Rightarrow> string" where
  "guarded s = (let t = trim (replaceForbidden s) in if startsWith t ''.'' then ''_'' @ t else t)"

section \<open>Example data\<close>

definition DEFAULT_SETTINGS :: ListyImporterSettings where
  "DEFAULT_SETTINGS = \<lparr>outputFolder = ''Listy'', consolidateToDoLists = True, includeTags = False,
     tagReplacement = [], enableNoteLocking = False, templateFile = [], maxTitleLength = 105\<rparr>"

definition exampleApp :: App where
  "exampleApp = \<lparr>normalizePath = (\<lambda>path. path), cachedTemplate = (\<lambda>path. None),
     uuidv4 = (\<lambda>k. ''110ec58a-a0f2-4ac4-8393-c866d813b8d'' @ [''0123456789abcdef'' ! (k mod 16)])\<rparr>"

definition exampleItem :: ListyItem where
  "exampleItem = \<lparr>ListyItem.title = ''1984'', type = ''Books'', url = Some ''http://x'',
     dateAdded = ''2024-01-01'', marked = False,
     attributes = Some [\<lparr>key = ''AUTHOR'', valueOf = ''Orwell''\<rparr>]\<rparr>"

definition exampleList :: ListyList where
  "exampleList = \<lparr>icon = [], title = ''Reading'', type = ''Books'', create = ''2024-01-01'',
     update = ''2024-01-02'', items = Some [exampleItem], customOrderIndex = 0,
     needFetchAfterImport = False\<rparr>"

definition taskItem :: "string \<Rightarrow> bool \<Rightarrow> ListyItem" where
  "taskItem t done = \<lparr>ListyItem.title = t, type = ''Tasks'', url = None,
     dateAdded = ''2024-01-01'', marked = done, attributes = None\<rparr>"

definition exampleTasks :: ListyList where
  "exampleTasks = \<lparr>icon = [], title = ''Chores'', type = ''Tasks'', create = ''2024-01-01'',
     update = ''2024-01-02'', items = Some [taskItem ''Dishes'' True, taskItem ''Laundry'' False],
     customOrderIndex = 0, needFetchAfterImport = False\<rparr>"

definition emptyVault :: Vault where
  "emptyVault = \<lparr>files = Map.empty, folders = {}, written = []\<rparr>"

text \<open>The settings with note locking enabled.\<close>

definition lockingSettings :: ListyImporterSettings where
  "lockingSettings = DEFAULT_SETTINGS\<lparr>enableNoteLocking := True\<rparr>"


section \<open>Notions of the specification\<close>

text \<open>
  A line that starts with the lock field, then white space, then \<^verbatim>\<open>true\<close>: the text before it is
  empty or ends with a line terminator.
\<close>

definition hasLockLine :: "string \<Rightarrow> bool" where
  "hasLockLine doc = (\<exists>pre ws post. doc = pre @ ''lock:'' @ ws @ ''true'' @ post
     \<and> (pre = [] \<or> isLineTerminator (last pre)) \<and> list_all isWhiteSpace ws)"

text \<open>Whether the last of the parsed checklist lines with title \<open>t\<close> is checked.\<close>

definition lastChecked :: "(string \<times> bool) list \<Rightarrow> string \<Rightarrow> bool" where
  "lastChecked tasks t = (let ps = filter (\<lambda>p. fst p = t) tasks in ps \<noteq> [] \<and> snd (last ps))"





text \<open>
  The descriptions of an item are settled: the loop of \<^verbatim>\<open>generateItemContent\<close> over the attributes
  leaves them as they are.
\<close>

definition descriptionsSettled :: "ListyImporterSettings \<Rightarrow> ListyItem \<Rightarrow> bool" where
  "descriptionsSettled st item = (map_option (rewriteDescriptions st) (attributes item) = attributes item)"


section \<open>Example documents\<close>

text \<open>A consolidated note with the user's words in both comment zones and both boxes checked.\<close>

definition editedTasksNote :: string where
  "editedTasksNote = consolidatedHeader exampleTasks
     @ ''%%START-110ec58a-a0f2-4ac4-8393-c866d813b8d0%%'' @ [NL, NL]
     @ ''Buy soap first'' @ [NL, NL]
     @ ''%%START-EXTRACTED-CONTENT-110ec58a-a0f2-4ac4-8393-c866d813b8d0%%'' @ [NL, NL]
     @ ''- [x] Dishes'' @ [NL] @ ''- [x] Laundry'' @ [NL]
     @ [NL] @ ''%%END-EXTRACTED-CONTENT-110ec58a-a0f2-4ac4-8393-c866d813b8d0%%'' @ [NL, NL]
     @ ''Ask Sam about the dryer'' @ [NL, NL]
     @ ''%%END-110ec58a-a0f2-4ac4-8393-c866d813b8d0%%'' @ [NL]"


text \<open>A note whose lock field is set.\<close>

definition lockedNote :: string where
  "lockedNote = ''---'' @ [NL] @ ''source: listy'' @ [NL] @ ''marked: false'' @ [NL]
     @ ''lock: true'' @ [NL] @ ''---'' @ [NL, NL] @ ''kept as it is'' @ [NL]"


















section \<open>Prefixes\<close>

lemma prefixBy_eq [simp]: "prefixBy (=) p s = prefix p s"
  by (induction "(=) :: char \<Rightarrow> char \<Rightarrow> bool" p s rule: prefixBy.induct) auto

declare prefixBy.simps [simp del]

lemma startsWith_prefix: "startsWith s p = prefix p s"
  by (simp add: startsWith_def)

section \<open>Replacement by a text without dollar sign\<close>

lemma getSubstitution_plain:
  "CHR ''$'' \<notin> set r \<Longrightarrow> getSubstitution m pre post r = r"
  by (induction m pre post r rule: getSubstitution.induct) auto

lemma replaceFrom_char:
  "CHR ''$'' \<notin> set r \<Longrightarrow>
   replaceFrom (=) [c] r rpre s = concat (map (\<lambda>x. if x = c then r else [x]) s)"
  by (induction s arbitrary: rpre) (auto simp: getSubstitution_plain)

lemma replaceAll_char:
  "CHR ''$'' \<notin> set r \<Longrightarrow> replaceAll [c] r s = concat (map (\<lambda>x. if x = c then r else [x]) s)"
  by (simp add: replaceAll_def replaceFrom_char)

lemma set_replaceAll_char:
  "CHR ''$'' \<notin> set r \<Longrightarrow> set (replaceAll [c] r s) \<subseteq> (set s - {c}) \<union> set r"
  by (auto simp: replaceAll_char split: if_splits)

lemma set_trim: "set (trim s) \<subseteq> set s"
proof -
  have "set (dropWhile isWhiteSpace (rev (dropWhile isWhiteSpace s))) \<subseteq> set (rev (dropWhile isWhiteSpace s))"
    by (rule set_dropWhileD[THEN subsetI])
  also have "\<dots> \<subseteq> set s"
    using set_dropWhileD[of _ isWhiteSpace s] by auto
  finally show ?thesis by (simp add: trim_def)
qed

section \<open>File names\<close>

lemma replaceAll_char_avoid:
  assumes "CHR ''$'' \<notin> set r" "set r \<inter> insert c F = {}" "set s \<inter> F = {}"
  shows "set (replaceAll [c] r s) \<inter> insert c F = {}"
  using set_replaceAll_char[OF assms(1), of c s] assms(2,3) by auto

lemma substring_take:
  "0 \<le> b \<Longrightarrow> b \<le> int (length s) \<Longrightarrow> substring s 0 b = take (nat b) s"
  by (simp add: substring_def Let_def min_def max_def)

lemma replaceForbidden_clean: "set (replaceForbidden s) \<inter> forbiddenChars = {}"
proof -
  have "set (replaceForbidden s) \<inter>
     insert (CHR ''#'') (insert NUL (insert (CHR ''='') (insert (CHR ''|'') (insert (CHR ''>'')
     (insert (CHR ''<'') (insert DQUOTE (insert (CHR ''?'') (insert (CHR ''*'') (insert (CHR '':'')
     (insert BACKSLASH (insert (CHR ''/'') {}))))))))))) = {}"
    unfolding replaceForbidden_def
    by (intro replaceAll_char_avoid) simp_all
  then show ?thesis
    by (auto simp: forbiddenChars_def)
qed

lemma guarded_clean: "set (guarded s) \<inter> forbiddenChars = {}"
proof -
  have "set (trim (replaceForbidden s)) \<inter> forbiddenChars = {}"
    using set_trim[of "replaceForbidden s"] replaceForbidden_clean[of s] by auto
  moreover have "CHR ''_'' \<notin> forbiddenChars"
    by (simp add: forbiddenChars_def)
  ultimately show ?thesis
    by (auto simp: guarded_def Let_def)
qed

lemma guarded_no_dot: "\<not> startsWith (guarded s) ''.''"
  by (simp add: guarded_def Let_def startsWith_prefix)

lemma sanitizeFileName_guarded:
  "sanitizeFileName st s =
     (if int (length (guarded s)) > maxTitleLength st
      then substring (guarded s) 0 (maxTitleLength st - 3) @ ''...'' else guarded s)"
  by (simp add: sanitizeFileName_def guarded_def Let_def)

text \<open>
  C4, amended. \<^verbatim>\<open>sanitizeFileName\<close> is a function of the settings and the title, defined for
  every title. For every title and every configured maximum of at least 4 (the slider of the
  settings tab offers 10 to 105) its result holds none of the characters
  \<^verbatim>\<open>/ \ : * ? " < > | = NUL #\<close>, does not start with a dot and is no longer than the maximum.
\<close>

theorem sanitizeFileName_safe:
  assumes "4 \<le> maxTitleLength st"
  shows "set (sanitizeFileName st s) \<inter> forbiddenChars = {}
       \<and> \<not> startsWith (sanitizeFileName st s) ''.''
       \<and> int (length (sanitizeFileName st s)) \<le> maxTitleLength st"
proof (cases "int (length (guarded s)) > maxTitleLength st")
  case False
  then show ?thesis
    using guarded_clean[of s] guarded_no_dot[of s] by (simp add: sanitizeFileName_guarded)
next
  case True
  define k where "k = nat (maxTitleLength st - 3)"
  have k: "0 < k" "k < length (guarded s)" "int k + 3 = maxTitleLength st"
    using assms True by (auto simp: k_def)
  have cut: "sanitizeFileName st s = take k (guarded s) @ ''...''"
    using True assms by (simp add: sanitizeFileName_guarded substring_take k_def)
  have "set (take k (guarded s)) \<subseteq> set (guarded s)"
    by (rule set_take_subset)
  then have clean: "set (sanitizeFileName st s) \<inter> forbiddenChars = {}"
    using guarded_clean[of s] by (auto simp: cut forbiddenChars_def)
  obtain c cs where g: "guarded s = c # cs"
    using k(2) by (cases "guarded s") auto
  then have "c \<noteq> CHR ''.''"
    using guarded_no_dot[of s] by (simp add: startsWith_prefix)
  moreover obtain k' where "k = Suc k'"
    using k(1) by (cases k) auto
  ultimately have dot: "\<not> startsWith (sanitizeFileName st s) ''.''"
    by (simp add: cut g startsWith_prefix)
  have "int (length (sanitizeFileName st s)) \<le> maxTitleLength st"
    using k by (simp add: cut min_def)
  with clean dot show ?thesis by simp
qed

theorem sanitizeFileName_safe_witness:
  "4 \<le> maxTitleLength (DEFAULT_SETTINGS\<lparr>maxTitleLength := 10\<rparr>)
   \<and> sanitizeFileName (DEFAULT_SETTINGS\<lparr>maxTitleLength := 10\<rparr>) '' .a/b:c#d=e?f*g<h|i '' = ''_.a-b-c...''
   \<and> set (sanitizeFileName (DEFAULT_SETTINGS\<lparr>maxTitleLength := 10\<rparr>) '' .a/b:c#d=e?f*g<h|i '') \<inter> forbiddenChars = {}
   \<and> \<not> startsWith (sanitizeFileName (DEFAULT_SETTINGS\<lparr>maxTitleLength := 10\<rparr>) '' .a/b:c#d=e?f*g<h|i '') ''.''
   \<and> int (length (sanitizeFileName (DEFAULT_SETTINGS\<lparr>maxTitleLength := 10\<rparr>) '' .a/b:c#d=e?f*g<h|i '')) \<le> 10"
proof -
  have v: "sanitizeFileName (DEFAULT_SETTINGS\<lparr>maxTitleLength := 10\<rparr>) '' .a/b:c#d=e?f*g<h|i '' = ''_.a-b-c...''"
    by code_simp
  have h: "4 \<le> maxTitleLength (DEFAULT_SETTINGS\<lparr>maxTitleLength := 10\<rparr>)"
    by simp
  show ?thesis
    using sanitizeFileName_safe[OF h, of "'' .a/b:c#d=e?f*g<h|i ''"] v h by simp
qed

text \<open>
  C4 as stated fails for a maximum below 3: the title is cut to nothing and the three dots
  that mark the cut are the whole name, longer than the maximum and starting with a dot.
\<close>

theorem sanitizeFileName_safe_counterexample:
  "sanitizeFileName (DEFAULT_SETTINGS\<lparr>maxTitleLength := 2\<rparr>) ''Dune'' = ''...''
   \<and> startsWith (sanitizeFileName (DEFAULT_SETTINGS\<lparr>maxTitleLength := 2\<rparr>) ''Dune'') ''.''
   \<and> int (length (sanitizeFileName (DEFAULT_SETTINGS\<lparr>maxTitleLength := 2\<rparr>) ''Dune''))
       > maxTitleLength (DEFAULT_SETTINGS\<lparr>maxTitleLength := 2\<rparr>)"
  by code_simp

section \<open>Template substitution\<close>

text \<open>
  C7. A template with two generic placeholders, for an entry that has the genre and no year:
  the first replacement shortens the text, the search goes on from the old end of the match,
  and the placeholder of the year is left in the result. The same template for an entry
  without attributes loses both placeholders.
\<close>

theorem applyTemplateTransformations_leaves_placeholder:
  "applyTemplateTransformations ''{{ATTR:genre}} {{ATTR:year}}''
     (exampleItem\<lparr>attributes := Some [\<lparr>key = ''genre'', valueOf = ''Drama''\<rparr>]\<rparr>) exampleList
     = Some ''Drama {{ATTR:year}}''
   \<and> applyTemplateTransformations ''{{ATTR:genre}} {{ATTR:year}}''
     (exampleItem\<lparr>attributes := None\<rparr>) exampleList = Some []"
  by code_simp

section \<open>The consolidated task list\<close>

lemma map_of_mapSet: "map_of (mapSet k v m) = (map_of m)(k \<mapsto> v)"
  by (induction m) (auto simp: fun_eq_iff)

lemma map_of_foldl_mapSet:
  "map_of (foldl (\<lambda>m p. mapSet (fst p) (snd p) m) m0 ts) t =
     (case filter (\<lambda>p. fst p = t) ts of [] \<Rightarrow> map_of m0 t | p # ps \<Rightarrow> Some (snd (last (p # ps))))"
proof (induction ts arbitrary: m0)
  case Nil
  then show ?case by simp
next
  case (Cons a ts)
  show ?case
    by (simp add: Cons.IH map_of_mapSet split: list.splits)
qed

lemma isCompleted_lastChecked:
  "isCompleted (existingTasksOf content) item =
     (marked item \<or> lastChecked (parseTasks content) (ListyItem.title item))"
  by (auto simp: isCompleted_def existingTasksOf_def mapHas_def mapGet_def lastChecked_def
      map_of_foldl_mapSet Let_def split: list.splits)

text \<open>
  C9, amended. The line written for an entry is checked if and only if the entry is marked or
  the last checklist line of the prior document with exactly its title is checked.
\<close>

theorem taskLine_checked_iff:
  "taskLine (existingTasksOf content) item =
     (if marked item \<or> lastChecked (parseTasks content) (ListyItem.title item)
      then ''- [x] '' else ''- [ ] '') @ ListyItem.title item @ [NL]"
  by (simp add: taskLine_def isCompleted_lastChecked)

text \<open>
  C9 as stated fails: the prior document holds a checked line and, after it, an unchecked line
  of the same title; the line written for the unmarked entry is unchecked.
\<close>

theorem taskLine_checked_counterexample:
  "parseTasks (''- [x] Laundry'' @ [NL] @ ''- [ ] Laundry'' @ [NL]) = [(''Laundry'', True), (''Laundry'', False)]
   \<and> marked (taskItem ''Laundry'' False) = False
   \<and> taskLine (existingTasksOf (''- [x] Laundry'' @ [NL] @ ''- [ ] Laundry'' @ [NL])) (taskItem ''Laundry'' False)
       = ''- [ ] Laundry'' @ [NL]"
  by code_simp

text \<open>
  C10, amended. When the prior document is not empty, holds no outer-start marker and is not
  skipped as locked, the document is written and each of its four markers carries \<^verbatim>\<open>null\<close>.
\<close>

theorem consolidated_null_token:
  assumes "files w (normalizePath app (folderPath @ ''/'' @ sanitizeFileName st (ListyList.title list) @ ''.md'')) = Some c"
    and "c \<noteq> []"
    and "extractItemId c = None"
    and "\<not> (enableNoteLocking st \<and> lockMatch c)"
    and "items list = Some is"
  shows "createConsolidatedToDoList app st list folderPath w =
     adapterWrite w (normalizePath app (folderPath @ ''/'' @ sanitizeFileName st (ListyList.title list) @ ''.md''))
       (consolidatedHeader list
        @ ''%%START-null%%'' @ [NL, NL]
        @ USER_COMMENT_PLACEHOLDER @ [NL, NL]
        @ ''%%START-EXTRACTED-CONTENT-null%%'' @ [NL, NL]
        @ concat (map (taskLine (existingTasksOf c)) is)
        @ [NL] @ ''%%END-EXTRACTED-CONTENT-null%%'' @ [NL, NL]
        @ USER_COMMENT_PLACEHOLDER @ [NL, NL]
        @ ''%%END-null%%'' @ [NL])"
  using assms
  by (auto simp: createConsolidatedToDoList_def isLocked_def consolidatedContent_def idText_def Let_def)

theorem consolidated_null_token_witness:
  "createConsolidatedToDoList exampleApp DEFAULT_SETTINGS exampleTasks ''Listy''
     (emptyVault\<lparr>files := [''Listy/Chores.md'' \<mapsto> ''- [x] Laundry'' @ [NL]]\<rparr>) =
   adapterWrite (emptyVault\<lparr>files := [''Listy/Chores.md'' \<mapsto> ''- [x] Laundry'' @ [NL]]\<rparr>) ''Listy/Chores.md''
       (consolidatedHeader exampleTasks
        @ ''%%START-null%%'' @ [NL, NL]
        @ USER_COMMENT_PLACEHOLDER @ [NL, NL]
        @ ''%%START-EXTRACTED-CONTENT-null%%'' @ [NL, NL]
        @ ''- [x] Dishes'' @ [NL] @ ''- [x] Laundry'' @ [NL]
        @ [NL] @ ''%%END-EXTRACTED-CONTENT-null%%'' @ [NL, NL]
        @ USER_COMMENT_PLACEHOLDER @ [NL, NL]
        @ ''%%END-null%%'' @ [NL])"
proof -
  let ?c = "''- [x] Laundry'' @ [NL]"
  let ?w = "emptyVault\<lparr>files := [''Listy/Chores.md'' \<mapsto> ?c]\<rparr>"
  have path: "normalizePath exampleApp (''Listy'' @ ''/'' @ sanitizeFileName DEFAULT_SETTINGS (ListyList.title exampleTasks) @ ''.md'')
      = ''Listy/Chores.md''"
    by code_simp
  have h1: "files ?w (normalizePath exampleApp (''Listy'' @ ''/'' @ sanitizeFileName DEFAULT_SETTINGS (ListyList.title exampleTasks) @ ''.md'')) = Some ?c"
    unfolding path by simp
  have h2: "?c \<noteq> []" by simp
  have h3: "extractItemId ?c = None" by code_simp
  have h4: "\<not> (enableNoteLocking DEFAULT_SETTINGS \<and> lockMatch ?c)"
    by (simp add: DEFAULT_SETTINGS_def)
  have h5: "items exampleTasks = Some [taskItem ''Dishes'' True, taskItem ''Laundry'' False]"
    by (simp add: exampleTasks_def)
  have lines: "concat (map (taskLine (existingTasksOf ?c)) [taskItem ''Dishes'' True, taskItem ''Laundry'' False])
      = ''- [x] Dishes'' @ [NL] @ ''- [x] Laundry'' @ [NL]"
    by code_simp
  show ?thesis
    using consolidated_null_token[OF h1 h2 h3 h4 h5] unfolding path lines by simp
qed

text \<open>
  C10 as stated fails for the empty prior document: it holds no marker, and the document
  written carries the fresh token.
\<close>

theorem consolidated_null_token_counterexample:
  "extractItemId [] = None
   \<and> written (createConsolidatedToDoList exampleApp DEFAULT_SETTINGS exampleTasks ''Listy''
        (emptyVault\<lparr>files := [''Listy/Chores.md'' \<mapsto> []]\<rparr>))
     = [(''Listy/Chores.md'',
         consolidatedHeader exampleTasks
         @ ''%%START-110ec58a-a0f2-4ac4-8393-c866d813b8d0%%'' @ [NL, NL]
         @ USER_COMMENT_PLACEHOLDER @ [NL, NL]
         @ ''%%START-EXTRACTED-CONTENT-110ec58a-a0f2-4ac4-8393-c866d813b8d0%%'' @ [NL, NL]
         @ ''- [x] Dishes'' @ [NL] @ ''- [ ] Laundry'' @ [NL]
         @ [NL] @ ''%%END-EXTRACTED-CONTENT-110ec58a-a0f2-4ac4-8393-c866d813b8d0%%'' @ [NL, NL]
         @ USER_COMMENT_PLACEHOLDER @ [NL, NL]
         @ ''%%END-110ec58a-a0f2-4ac4-8393-c866d813b8d0%%'' @ [NL])]"
  by code_simp

text \<open>
  C8. The prior document has intact markers and the user's words in both zones. The document
  written keeps the token and has the placeholder in both zones: the user's words are gone.
\<close>

theorem consolidated_overwrites_comments:
  "extractItemId editedTasksNote = Some ''110ec58a-a0f2-4ac4-8393-c866d813b8d0''
   \<and> written (createConsolidatedToDoList exampleApp DEFAULT_SETTINGS exampleTasks ''Listy''
        (emptyVault\<lparr>files := [''Listy/Chores.md'' \<mapsto> editedTasksNote]\<rparr>))
     = [(''Listy/Chores.md'',
         consolidatedHeader exampleTasks
         @ ''%%START-110ec58a-a0f2-4ac4-8393-c866d813b8d0%%'' @ [NL, NL]
         @ USER_COMMENT_PLACEHOLDER @ [NL, NL]
         @ ''%%START-EXTRACTED-CONTENT-110ec58a-a0f2-4ac4-8393-c866d813b8d0%%'' @ [NL, NL]
         @ ''- [x] Dishes'' @ [NL] @ ''- [x] Laundry'' @ [NL]
         @ [NL] @ ''%%END-EXTRACTED-CONTENT-110ec58a-a0f2-4ac4-8393-c866d813b8d0%%'' @ [NL, NL]
         @ USER_COMMENT_PLACEHOLDER @ [NL, NL]
         @ ''%%END-110ec58a-a0f2-4ac4-8393-c866d813b8d0%%'' @ [NL])]"
  by code_simp

section \<open>Locked notes\<close>

lemma dropWhile_white_true:
  "list_all isWhiteSpace ws \<Longrightarrow> dropWhile isWhiteSpace (ws @ ''true'' @ post) = ''true'' @ post"
  by (induction ws) (auto simp: isWhiteSpace_def)

lemma lockMatchAt_iff:
  "lockMatchAt s \<longleftrightarrow> (\<exists>ws post. s = ''lock:'' @ ws @ ''true'' @ post \<and> list_all isWhiteSpace ws)"
proof
  assume m: "lockMatchAt s"
  then obtain r where r: "s = ''lock:'' @ r"
    by (auto simp: lockMatchAt_def prefix_def split: if_splits)
  with m obtain post where post: "dropWhile isWhiteSpace r = ''true'' @ post"
    by (auto simp: lockMatchAt_def prefix_def split: if_splits)
  have "r = takeWhile isWhiteSpace r @ dropWhile isWhiteSpace r"
    by simp
  then have "s = ''lock:'' @ takeWhile isWhiteSpace r @ ''true'' @ post"
    using r post by simp
  moreover have "list_all isWhiteSpace (takeWhile isWhiteSpace r)"
    by (simp add: list_all_iff) (meson set_takeWhileD)
  ultimately show "\<exists>ws post. s = ''lock:'' @ ws @ ''true'' @ post \<and> list_all isWhiteSpace ws"
    by blast
next
  assume "\<exists>ws post. s = ''lock:'' @ ws @ ''true'' @ post \<and> list_all isWhiteSpace ws"
  then obtain ws post where s: "s = ''lock:'' @ ws @ ''true'' @ post" and ws: "list_all isWhiteSpace ws"
    by blast
  show "lockMatchAt s"
    using dropWhile_white_true[OF ws, of post] by (simp add: lockMatchAt_def s)
qed

lemma lockScan_iff:
  "lockScan b s \<longleftrightarrow> (\<exists>pre ws post. s = pre @ ''lock:'' @ ws @ ''true'' @ post
     \<and> (if pre = [] then b else isLineTerminator (last pre)) \<and> list_all isWhiteSpace ws)"
proof (induction s arbitrary: b)
  case Nil
  then show ?case by simp
next
  case (Cons c cs)
  show ?case (is "?L \<longleftrightarrow> ?R")
  proof
    assume ?L
    then consider "b" "lockMatchAt (c # cs)" | "lockScan (isLineTerminator c) cs"
      by (auto split: if_splits)
    then show ?R
    proof cases
      case 1
      then obtain ws post where "c # cs = ''lock:'' @ ws @ ''true'' @ post" "list_all isWhiteSpace ws"
        using lockMatchAt_iff by blast
      with 1 show ?thesis
        by (intro exI[of _ "[]"] exI[of _ ws] exI[of _ post]) simp
    next
      case 2
      then obtain pre ws post where p: "cs = pre @ ''lock:'' @ ws @ ''true'' @ post"
        "if pre = [] then isLineTerminator c else isLineTerminator (last pre)" "list_all isWhiteSpace ws"
        using Cons.IH by blast
      then show ?thesis
        by (intro exI[of _ "c # pre"] exI[of _ ws] exI[of _ post]) (auto split: if_splits)
    qed
  next
    assume ?R
    then obtain pre ws post where p: "c # cs = pre @ ''lock:'' @ ws @ ''true'' @ post"
      "if pre = [] then b else isLineTerminator (last pre)" "list_all isWhiteSpace ws"
      by blast
    show ?L
    proof (cases pre)
      case Nil
      with p have "b" "lockMatchAt (c # cs)"
        using lockMatchAt_iff by auto
      then show ?thesis by simp
    next
      case (Cons a pre')
      with p have cs: "cs = pre' @ ''lock:'' @ ws @ ''true'' @ post" and a: "a = c"
        by auto
      have "if pre' = [] then isLineTerminator c else isLineTerminator (last pre')"
        using p(2) Cons a by (auto split: if_splits)
      with cs p(3) have "lockScan (isLineTerminator c) cs"
        using Cons.IH by blast
      then show ?thesis by simp
    qed
  qed
qed

lemma lockMatch_iff: "lockMatch doc \<longleftrightarrow> hasLockLine doc"
proof -
  have eq: "\<And>pre :: string. (if pre = [] then True else isLineTerminator (last pre))
      \<longleftrightarrow> (pre = [] \<or> isLineTerminator (last pre))"
    by simp
  show ?thesis
    unfolding lockMatch_def hasLockLine_def lockScan_iff eq by (rule refl)
qed

text \<open>
  With note locking enabled, an item whose note has a lock line is passed over: the vault,
  its record of writes included, and the count stay as they are, and the rest of the list is
  processed as if the item were not there.
\<close>

lemma locked_entry_skipped:
  assumes "enableNoteLocking st"
    and "files w (normalizePath app (listFolderPath @ ''/'' @ sanitizeFileName st (ListyItem.title item) @ ''.md'')) = Some doc"
    and "hasLockLine doc"
  shows "processItem app st list listFolderPath item (w, n) = (w, Inr n)"
    and "processItems app st list listFolderPath (item # rest) (w, n)
           = processItems app st list listFolderPath rest (w, n)"
proof -
  have "lockMatch doc"
    using assms(3) by (simp add: lockMatch_iff)
  moreover have "doc \<noteq> []"
    using assms(3) by (auto simp: hasLockLine_def)
  ultimately show "processItem app st list listFolderPath item (w, n) = (w, Inr n)"
    using assms(1,2) by (simp add: processItem_def isLocked_def Let_def)
  then show "processItems app st list listFolderPath (item # rest) (w, n)
           = processItems app st list listFolderPath rest (w, n)"
    by simp
qed

text \<open>
  The consolidated note of a task list is passed over in the same way, and yet the round of
  the list adds one to the count.
\<close>

lemma locked_list_untouched:
  assumes "enableNoteLocking st"
    and "files w (normalizePath app (folderPath @ ''/'' @ sanitizeFileName st (ListyList.title list) @ ''.md'')) = Some doc"
    and "hasLockLine doc"
  shows "createConsolidatedToDoList app st list folderPath w = w"
proof -
  have "lockMatch doc" "doc \<noteq> []"
    using assms(3) by (auto simp: lockMatch_iff hasLockLine_def)
  then show ?thesis
    using assms(1,2) by (simp add: createConsolidatedToDoList_def isLocked_def Let_def)
qed

lemma locked_list_counted:
  assumes "ListyList.type list = ''Tasks''" "consolidateToDoLists st" "items list = Some (item # rest)"
    and "enableNoteLocking st"
    and "files w (normalizePath app (outputFolder st @ ''/'' @ sanitizeFileName st (ListyList.title list) @ ''.md'')) = Some doc"
    and "hasLockLine doc"
  shows "processList app st list (w, n) = (w, Inr (n + 1))"
  using assms(1-3) locked_list_untouched[OF assms(4-6)] by (simp add: processList_def Let_def)

text \<open>
  C5 fails in consolidated mode. With note locking enabled, the run over a task list whose
  consolidated note has a lock line writes nothing and leaves the note as it is, but counts
  it: the run returns 1. The run over a list whose one item has a locked note of its own
  writes nothing and returns 0.
\<close>

theorem locked_consolidated_counted:
  "snd (processListyData exampleApp lockingSettings \<lparr>lists = ListsArray [Some exampleTasks]\<rparr>
          (emptyVault\<lparr>files := [''Listy/Chores.md'' \<mapsto> lockedNote]\<rparr>)) = Inr 1
   \<and> written (fst (processListyData exampleApp lockingSettings \<lparr>lists = ListsArray [Some exampleTasks]\<rparr>
          (emptyVault\<lparr>files := [''Listy/Chores.md'' \<mapsto> lockedNote]\<rparr>))) = []
   \<and> files (fst (processListyData exampleApp lockingSettings \<lparr>lists = ListsArray [Some exampleTasks]\<rparr>
          (emptyVault\<lparr>files := [''Listy/Chores.md'' \<mapsto> lockedNote]\<rparr>))) ''Listy/Chores.md'' = Some lockedNote
   \<and> snd (processListyData exampleApp lockingSettings \<lparr>lists = ListsArray [Some exampleList]\<rparr>
          (emptyVault\<lparr>files := [''Listy/Reading/1984.md'' \<mapsto> lockedNote]\<rparr>)) = Inr 0
   \<and> written (fst (processListyData exampleApp lockingSettings \<lparr>lists = ListsArray [Some exampleList]\<rparr>
          (emptyVault\<lparr>files := [''Listy/Reading/1984.md'' \<mapsto> lockedNote]\<rparr>))) = []"
  by code_simp


section \<open>Searching a text\<close>

lemma includes_str_iff: "includes_str s p \<longleftrightarrow> (\<exists>u v. s = u @ p @ v)"
proof (induction s)
  case Nil
  then show ?case by auto
next
  case (Cons c cs)
  show ?case (is "?L \<longleftrightarrow> ?R")
  proof
    assume ?L
    then consider "prefix p (c # cs)" | "includes_str cs p"
      by (auto split: if_splits)
    then show ?R
    proof cases
      case 1
      then obtain v where "c # cs = p @ v" by (auto simp: prefix_def)
      then have "c # cs = [] @ p @ v" by simp
      then show ?thesis by blast
    next
      case 2
      then obtain u v where "cs = u @ p @ v" using Cons.IH by blast
      then have "c # cs = (c # u) @ p @ v" by simp
      then show ?thesis by blast
    qed
  next
    assume ?R
    then obtain u v where uv: "c # cs = u @ p @ v" by blast
    show ?L
    proof (cases u)
      case Nil
      with uv have "prefix p (c # cs)" by (simp add: prefix_def)
      then show ?thesis by simp
    next
      case (Cons a u')
      with uv have "cs = u' @ p @ v" by simp
      then have "includes_str cs p" using Cons.IH by blast
      then show ?thesis by simp
    qed
  qed
qed



lemma includes_str_append2: "includes_str y p \<Longrightarrow> includes_str (x @ y) p"
proof -
  assume "includes_str y p"
  then obtain u v where "y = u @ p @ v" by (auto simp: includes_str_iff)
  then have "x @ y = (x @ u) @ p @ v" by simp
  then show ?thesis unfolding includes_str_iff by blast
qed



lemma indexOf_ge: "- 1 \<le> indexOf s p"
  by (induction s) (auto simp: Let_def)







section \<open>Updating a note\<close>









section \<open>A substitution that does not end\<close>









section \<open>Validation of the input\<close>













section \<open>The example item rendered\<close>




section \<open>Regeneration\<close>




section \<open>Comment zones\<close>




section \<open>Tokens and markers\<close>









section \<open>Finding the token\<close>








section \<open>Stretches that end in an empty line\<close>



section \<open>Rewritten descriptions\<close>











lemma generateItemContent_left:
  "snd (generateItemContent app st item list)
     = item\<lparr>attributes := map_option (rewriteDescriptions st) (attributes item)\<rparr>"
  by (simp add: generateItemContent_def Let_def)



text \<open>
  A tag replacement without hash and without dollar sign leaves no hash behind, so the
  descriptions are settled after the first rewrite.
\<close>

lemma processDescription_settled:
  assumes "CHR ''#'' \<notin> set (tagReplacement st)" "CHR ''$'' \<notin> set (tagReplacement st)"
  shows "processDescription st (processDescription st d) = processDescription st d"
proof -
  have "CHR ''#'' \<notin> set (replaceAll ''#'' (tagReplacement st) d)"
    using set_replaceAll_char[OF assms(2), of "CHR ''#''" d] assms(1) by auto
  moreover have "CHR ''#'' \<notin> set s \<Longrightarrow>
      concat (map (\<lambda>x. if x = CHR ''#'' then tagReplacement st else [x]) s) = s" for s
    by (induction s) auto
  ultimately have "concat (map (\<lambda>x. if x = CHR ''#'' then tagReplacement st else [x])
                  (replaceAll ''#'' (tagReplacement st) d)) = replaceAll ''#'' (tagReplacement st) d"
    by blast
  then show ?thesis
    by (simp add: processDescription_def replaceAll_char[OF assms(2), of "CHR ''#''"])
qed

lemma descriptionsSettled_plain:
  assumes "CHR ''#'' \<notin> set (tagReplacement st)" "CHR ''$'' \<notin> set (tagReplacement st)"
  shows "descriptionsSettled st (snd (generateItemContent app st item list))"
proof -
  have "rewriteDescriptions st (rewriteDescriptions st attrs) = rewriteDescriptions st attrs" for attrs
    by (induction attrs) (simp_all add: rewriteDescriptions_def processDescription_settled[OF assms])
  then show ?thesis
    by (cases "attributes item") (simp_all add: descriptionsSettled_def generateItemContent_left)
qed

section \<open>Idempotence\<close>







end
